theory Spec2Isabelle
  imports Complex_Main "HOL-Library.Char_ord" "HOL-Library.List_Lexorder"
begin

section \<open>Configuration manager (config/index.js, in src/backend/src/server.js from line 334)\<close>

text \<open>
  The configuration module reads \<^verbatim>\<open>process.env\<close>, a table from variable names to
  strings in which an unset variable reads as \<^verbatim>\<open>undefined\<close>. The table is a map
  \<open>string \<rightharpoonup> string\<close>; \<open>None\<close> is \<^verbatim>\<open>undefined\<close>.

  A JavaScript number is a rational, one of the two infinities, or \<open>NaN\<close>; the numeric
  literals of the source denote the rational they spell.
\<close>

datatype jsnum = NaN | Num rat | PosInfinity | NegInfinity

datatype jsval = VUndefined | VStr string | VNum jsnum | VBool bool | VArr "string list"

definition Number_isNaN :: "jsnum \<Rightarrow> bool" where
  "Number_isNaN x = (x = NaN)"

text \<open>
  \<^verbatim>\<open>Number.parseInt(string, radix)\<close> and \<^verbatim>\<open>Number.parseFloat(string)\<close> belong to the
  language, not to the repository: which number a string denotes rests on Unicode white
  space and on rounding to a binary double. They are parameters of the model, so that
  what is proved holds for the built-ins whatever they answer.
\<close>

record Number =
  Number_parseInt :: "string \<Rightarrow> nat \<Rightarrow> jsnum"
  Number_parseFloat :: "string \<Rightarrow> jsnum"

subsection \<open>The built-in string functions the helpers call\<close>

text \<open>
  \<^verbatim>\<open>toLowerCase\<close>, \<^verbatim>\<open>trim\<close> and \<^verbatim>\<open>split\<close> on ASCII text, which is what \<open>parseBoolean\<close>
  and \<open>parseArray\<close> compare against and split at. White space is the ASCII part of
  ECMAScript's \<^verbatim>\<open>StrWhiteSpaceChar\<close>: tab, line feed, vertical tab, form feed, carriage
  return and space.
\<close>

definition isWhiteSpace :: "char \<Rightarrow> bool" where
  "isWhiteSpace c = ((of_char c :: nat) \<in> {9, 10, 11, 12, 13, 32})"

text \<open>\<^verbatim>\<open>toLowerCase\<close> on the ASCII letters; every other character is kept.\<close>

definition toLowerCase :: "string \<Rightarrow> string" where
  "toLowerCase s =
     map (\<lambda>c. case map_of (zip ''ABCDEFGHIJKLMNOPQRSTUVWXYZ'' ''abcdefghijklmnopqrstuvwxyz'') c of
                 None \<Rightarrow> c
               | Some l \<Rightarrow> l) s"

definition trim :: "string \<Rightarrow> string" where
  "trim s = rev (dropWhile isWhiteSpace (rev (dropWhile isWhiteSpace s)))"

fun split :: "char \<Rightarrow> string \<Rightarrow> string list" where
  "split sep [] = [[]]"
| "split sep (c # cs) =
     (if c = sep then [] # split sep cs
      else (c # hd (split sep cs)) # tl (split sep cs))"

subsection \<open>The parsing helpers\<close>

definition parseBoolean :: "string option \<Rightarrow> bool \<Rightarrow> bool" where
  "parseBoolean v defaultValue =
     (case v of
        None \<Rightarrow> defaultValue
      | Some s \<Rightarrow> toLowerCase s = ''true'' \<or> s = ''1'')"

definition parseInt :: "Number \<Rightarrow> string option \<Rightarrow> jsnum \<Rightarrow> jsnum" where
  "parseInt N v defaultValue =
     (case v of
        None \<Rightarrow> defaultValue
      | Some s \<Rightarrow>
          (let parsed = Number_parseInt N s 10
           in if Number_isNaN parsed then defaultValue else parsed))"

definition parseFloat :: "Number \<Rightarrow> string option \<Rightarrow> jsnum \<Rightarrow> jsnum" where
  "parseFloat N v defaultValue =
     (case v of
        None \<Rightarrow> defaultValue
      | Some s \<Rightarrow>
          (let parsed = Number_parseFloat N s
           in if Number_isNaN parsed then defaultValue else parsed))"

text \<open>\<^verbatim>\<open>if (!value) return defaultValue\<close>: an unset variable and the empty string are falsy.\<close>

definition parseArray :: "string option \<Rightarrow> string list \<Rightarrow> string list" where
  "parseArray v defaultValue =
     (case v of
        None \<Rightarrow> defaultValue
      | Some s \<Rightarrow>
          if s = [] then defaultValue
          else filter (\<lambda>item. length item > 0) (map trim (split (CHR '','') s)))"

subsection \<open>The configuration object\<close>

text \<open>\<^verbatim>\<open>process.env.X || d\<close>: the default replaces an unset variable and the empty string.\<close>

definition orElse :: "string option \<Rightarrow> string \<Rightarrow> string" where
  "orElse v d = (case v of None \<Rightarrow> d | Some s \<Rightarrow> if s = [] then d else s)"

text \<open>\<^verbatim>\<open>process.env.X\<close> stored as it is.\<close>

definition envValue :: "string option \<Rightarrow> jsval" where
  "envValue v = (case v of None \<Rightarrow> VUndefined | Some s \<Rightarrow> VStr s)"

text \<open>
  The object literal \<^verbatim>\<open>config\<close>, one pair per property in the order of the source, for
  the built-ins \<open>N\<close> and the environment \<open>env\<close>.
\<close>

definition config :: "Number \<Rightarrow> (string \<rightharpoonup> string) \<Rightarrow> (string \<times> jsval) list" where
  "config N env =
  [
   (''NODE_ENV'', VStr (orElse (env ''NODE_ENV'') ''development'')),
   (''IS_PRODUCTION'', VBool (env ''NODE_ENV'' = Some ''production'')),
   (''IS_DEVELOPMENT'', VBool (env ''NODE_ENV'' = Some ''development'')),
   (''IS_TEST'', VBool (env ''NODE_ENV'' = Some ''test'')),
   (''PORT'', VNum (parseInt N (env ''PORT'') (Num 3000))),
   (''HOST'', VStr (orElse (env ''HOST'') ''localhost'')),
   (''API_VERSION'', VStr (orElse (env ''API_VERSION'') ''v1'')),
   (''BASE_URL'', VStr (orElse (env ''BASE_URL'') (''http://localhost:'' @ orElse (env ''PORT'') ''3000''))),
   (''MONGODB_URI'', envValue (env ''MONGODB_URI'')),
   (''MONGODB_DB_NAME'', VStr (orElse (env ''MONGODB_DB_NAME'') ''ai_audio_kb'')),
   (''MONGODB_POOL_SIZE'', VNum (parseInt N (env ''MONGODB_POOL_SIZE'') (Num 20))),
   (''MONGODB_MAX_IDLE_TIME'', VNum (parseInt N (env ''MONGODB_MAX_IDLE_TIME'') (Num 30000))),
   (''MONGODB_SERVER_SELECTION_TIMEOUT'', VNum (parseInt N (env ''MONGODB_SERVER_SELECTION_TIMEOUT'') (Num 5000))),
   (''MONGODB_SOCKET_TIMEOUT'', VNum (parseInt N (env ''MONGODB_SOCKET_TIMEOUT'') (Num 45000))),
   (''VECTOR_INDEX_NAME'', VStr (orElse (env ''VECTOR_INDEX_NAME'') ''audio_embeddings_index'')),
   (''VECTOR_DIMENSIONS'', VNum (parseInt N (env ''VECTOR_DIMENSIONS'') (Num 1024))),
   (''VECTOR_SIMILARITY'', VStr (orElse (env ''VECTOR_SIMILARITY'') ''cosine'')),
   (''VECTOR_SUPPORTED_DIMS'', VArr (parseArray (env ''VECTOR_SUPPORTED_DIMS'') [''1536'', ''1024'', ''768''])),
   (''SEARCH_INDEX_NAME'', VStr (orElse (env ''SEARCH_INDEX_NAME'') ''audio_text_search'')),
   (''SEARCH_ANALYZER'', VStr (orElse (env ''SEARCH_ANALYZER'') ''english'')),
   (''HYBRID_VECTOR_WEIGHT'', VNum (parseFloat N (env ''HYBRID_VECTOR_WEIGHT'') (Num 0.6))),
   (''HYBRID_TEXT_WEIGHT'', VNum (parseFloat N (env ''HYBRID_TEXT_WEIGHT'') (Num 0.4))),
   (''HYBRID_TOP_K'', VNum (parseInt N (env ''HYBRID_TOP_K'') (Num 20))),
   (''HYBRID_VECTOR_CANDIDATES'', VNum (parseInt N (env ''HYBRID_VECTOR_CANDIDATES'') (Num 100))),
   (''HYBRID_NUM_CANDIDATES'', VNum (parseInt N (env ''HYBRID_NUM_CANDIDATES'') (Num 1000))),
   (''HYBRID_MIN_SCORE'', VNum (parseFloat N (env ''HYBRID_MIN_SCORE'') (Num 0.7))),
   (''REDIS_URL'', VStr (orElse (env ''REDIS_URL'') ''redis://localhost:6379'')),
   (''REDIS_HOST'', VStr (orElse (env ''REDIS_HOST'') ''localhost'')),
   (''REDIS_PORT'', VNum (parseInt N (env ''REDIS_PORT'') (Num 6379))),
   (''REDIS_PASSWORD'', envValue (env ''REDIS_PASSWORD'')),
   (''REDIS_DB'', VNum (parseInt N (env ''REDIS_DB'') (Num 0))),
   (''JWT_SECRET'', envValue (env ''JWT_SECRET'')),
   (''JWT_REFRESH_SECRET'', envValue (env ''JWT_REFRESH_SECRET'')),
   (''JWT_EXPIRES_IN'', VStr (orElse (env ''JWT_EXPIRES_IN'') ''24h'')),
   (''JWT_REFRESH_EXPIRES_IN'', VStr (orElse (env ''JWT_REFRESH_EXPIRES_IN'') ''7d'')),
   (''API_KEY_SALT'', envValue (env ''API_KEY_SALT'')),
   (''ENCRYPTION_KEY'', envValue (env ''ENCRYPTION_KEY'')),
   (''CORS_ORIGINS'', VStr (orElse (env ''CORS_ORIGINS'') ''http://localhost:3000'')),
   (''AWS_REGION'', VStr (orElse (env ''AWS_REGION'') ''us-west-2'')),
   (''AWS_ACCESS_KEY_ID'', envValue (env ''AWS_ACCESS_KEY_ID'')),
   (''AWS_SECRET_ACCESS_KEY'', envValue (env ''AWS_SECRET_ACCESS_KEY'')),
   (''S3_BUCKET_NAME'', envValue (env ''S3_BUCKET_NAME'')),
   (''S3_BUCKET_REGION'', VStr (orElse (env ''S3_BUCKET_REGION'') ''us-west-2'')),
   (''S3_PRESIGNED_URL_EXPIRES'', VNum (parseInt N (env ''S3_PRESIGNED_URL_EXPIRES'') (Num 3600))),
   (''DEEPGRAM_API_KEY'', envValue (env ''DEEPGRAM_API_KEY'')),
   (''DEEPGRAM_MODEL'', VStr (orElse (env ''DEEPGRAM_MODEL'') ''nova-2'')),
   (''DEEPGRAM_LANGUAGE'', VStr (orElse (env ''DEEPGRAM_LANGUAGE'') ''en-US'')),
   (''DEEPGRAM_TIER'', VStr (orElse (env ''DEEPGRAM_TIER'') ''enhanced'')),
   (''GOOGLE_APPLICATION_CREDENTIALS'', envValue (env ''GOOGLE_APPLICATION_CREDENTIALS'')),
   (''GOOGLE_PROJECT_ID'', envValue (env ''GOOGLE_PROJECT_ID'')),
   (''GOOGLE_STT_MODEL'', VStr (orElse (env ''GOOGLE_STT_MODEL'') ''latest_short'')),
   (''GOOGLE_STT_LANGUAGE'', VStr (orElse (env ''GOOGLE_STT_LANGUAGE'') ''en-US'')),
   (''OPENAI_API_KEY'', envValue (env ''OPENAI_API_KEY'')),
   (''OPENAI_ORGANIZATION'', envValue (env ''OPENAI_ORGANIZATION'')),
   (''OPENAI_EMBEDDING_MODEL'', VStr (orElse (env ''OPENAI_EMBEDDING_MODEL'') ''text-embedding-3-small'')),
   (''OPENAI_EMBEDDING_DIMENSIONS'', VNum (parseInt N (env ''OPENAI_EMBEDDING_DIMENSIONS'') (Num 1536))),
   (''OPENAI_MAX_TOKENS'', VNum (parseInt N (env ''OPENAI_MAX_TOKENS'') (Num 4096))),
   (''VOYAGE_API_KEY'', envValue (env ''VOYAGE_API_KEY'')),
   (''VOYAGE_EMBEDDING_MODEL'', VStr (orElse (env ''VOYAGE_EMBEDDING_MODEL'') ''voyage-context-3'')),
   (''VOYAGE_EMBEDDING_DIMENSIONS'', VNum (parseInt N (env ''VOYAGE_EMBEDDING_DIMENSIONS'') (Num 1024))),
   (''VOYAGE_RERANK_MODEL'', VStr (orElse (env ''VOYAGE_RERANK_MODEL'') ''rerank-2.5'')),
   (''VOYAGE_CONTEXT_WINDOW'', VNum (parseInt N (env ''VOYAGE_CONTEXT_WINDOW'') (Num 3))),
   (''EMBEDDING_PROVIDER'', VStr (orElse (env ''EMBEDDING_PROVIDER'') ''voyage'')),
   (''EMBEDDING_FALLBACK_ENABLED'', VBool (parseBoolean (env ''EMBEDDING_FALLBACK_ENABLED'') True)),
   (''RERANKING_ENABLED'', VBool (parseBoolean (env ''RERANKING_ENABLED'') True)),
   (''RERANKING_TOP_K'', VNum (parseInt N (env ''RERANKING_TOP_K'') (Num 20))),
   (''LANGFUSE_SECRET_KEY'', envValue (env ''LANGFUSE_SECRET_KEY'')),
   (''LANGFUSE_PUBLIC_KEY'', envValue (env ''LANGFUSE_PUBLIC_KEY'')),
   (''LANGFUSE_BASE_URL'', VStr (orElse (env ''LANGFUSE_BASE_URL'') ''https://cloud.langfuse.com'')),
   (''LANGFUSE_ENABLED'', VBool (parseBoolean (env ''LANGFUSE_ENABLED'') True)),
   (''AUDIO_SAMPLE_RATE'', VNum (parseInt N (env ''AUDIO_SAMPLE_RATE'') (Num 16000))),
   (''AUDIO_CHANNELS'', VNum (parseInt N (env ''AUDIO_CHANNELS'') (Num 1))),
   (''AUDIO_SEGMENT_DURATION'', VNum (parseInt N (env ''AUDIO_SEGMENT_DURATION'') (Num 5000))),
   (''AUDIO_VAD_THRESHOLD'', VNum (parseFloat N (env ''AUDIO_VAD_THRESHOLD'') (Num 0.5))),
   (''AUDIO_SILENCE_THRESHOLD'', VNum (parseInt N (env ''AUDIO_SILENCE_THRESHOLD'') (Num 700))),
   (''AUDIO_MAX_FILE_SIZE'', VNum (parseInt N (env ''AUDIO_MAX_FILE_SIZE'') (Num 50000000))),
   (''SUPPORTED_AUDIO_FORMATS'', VArr (parseArray (env ''SUPPORTED_AUDIO_FORMATS'') [''opus'', ''wav'', ''m4a'', ''mp3''])),
   (''RATE_LIMIT_WINDOW_MS'', VNum (parseInt N (env ''RATE_LIMIT_WINDOW_MS'') (Num 900000))),
   (''RATE_LIMIT_MAX_REQUESTS'', VNum (parseInt N (env ''RATE_LIMIT_MAX_REQUESTS'') (Num 100))),
   (''RATE_LIMIT_SKIP_SUCCESSFUL_REQUESTS'', VBool (parseBoolean (env ''RATE_LIMIT_SKIP_SUCCESSFUL_REQUESTS'') False)),
   (''UPLOAD_RATE_LIMIT_MB_PER_SECOND'', VNum (parseInt N (env ''UPLOAD_RATE_LIMIT_MB_PER_SECOND'') (Num 5))),
   (''CONCURRENT_TRANSCRIPTIONS'', VNum (parseInt N (env ''CONCURRENT_TRANSCRIPTIONS'') (Num 10))),
   (''MAX_COST_PER_HOUR_USD'', VNum (parseFloat N (env ''MAX_COST_PER_HOUR_USD'') (Num 0.75))),
   (''COST_ALERT_THRESHOLD_USD'', VNum (parseFloat N (env ''COST_ALERT_THRESHOLD_USD'') (Num 0.60))),
   (''AUTO_THROTTLE_ENABLED'', VBool (parseBoolean (env ''AUTO_THROTTLE_ENABLED'') True)),
   (''BILLING_ALERTS_ENABLED'', VBool (parseBoolean (env ''BILLING_ALERTS_ENABLED'') True)),
   (''WS_HEARTBEAT_INTERVAL'', VNum (parseInt N (env ''WS_HEARTBEAT_INTERVAL'') (Num 30000))),
   (''WS_MAX_CONNECTIONS'', VNum (parseInt N (env ''WS_MAX_CONNECTIONS'') (Num 1000))),
   (''WS_MAX_BUFFER_SIZE'', VNum (parseInt N (env ''WS_MAX_BUFFER_SIZE'') (Num 1048576))),
   (''WS_COMPRESSION_ENABLED'', VBool (parseBoolean (env ''WS_COMPRESSION_ENABLED'') True)),
   (''REDIS_QUEUE_PREFIX'', VStr (orElse (env ''REDIS_QUEUE_PREFIX'') ''ai-audio-kb'')),
   (''QUEUE_CONCURRENCY'', VNum (parseInt N (env ''QUEUE_CONCURRENCY'') (Num 5))),
   (''JOB_RETRY_ATTEMPTS'', VNum (parseInt N (env ''JOB_RETRY_ATTEMPTS'') (Num 3))),
   (''JOB_RETRY_DELAY'', VNum (parseInt N (env ''JOB_RETRY_DELAY'') (Num 5000))),
   (''PROMETHEUS_ENABLED'', VBool (parseBoolean (env ''PROMETHEUS_ENABLED'') True)),
   (''PROMETHEUS_PORT'', VNum (parseInt N (env ''PROMETHEUS_PORT'') (Num 9090))),
   (''HEALTH_CHECK_ENABLED'', VBool (parseBoolean (env ''HEALTH_CHECK_ENABLED'') True)),
   (''HEALTH_CHECK_INTERVAL'', VNum (parseInt N (env ''HEALTH_CHECK_INTERVAL'') (Num 30000))),
   (''LOG_LEVEL'', VStr (orElse (env ''LOG_LEVEL'') ''info'')),
   (''LOG_FILE_ENABLED'', VBool (parseBoolean (env ''LOG_FILE_ENABLED'') True)),
   (''LOG_FILE_PATH'', VStr (orElse (env ''LOG_FILE_PATH'') ''./logs/app.log'')),
   (''LOG_FILE_MAX_SIZE'', VStr (orElse (env ''LOG_FILE_MAX_SIZE'') ''10mb'')),
   (''LOG_FILE_MAX_FILES'', VNum (parseInt N (env ''LOG_FILE_MAX_FILES'') (Num 5))),
   (''LOG_CONSOLE_ENABLED'', VBool (parseBoolean (env ''LOG_CONSOLE_ENABLED'') True)),
   (''REGION_POLICY_FILE'', VStr (orElse (env ''REGION_POLICY_FILE'') ''./config/region-policies.json'')),
   (''DEFAULT_REGION'', VStr (orElse (env ''DEFAULT_REGION'') ''US-CA'')),
   (''AUDIT_LOG_RETENTION_DAYS'', VNum (parseInt N (env ''AUDIT_LOG_RETENTION_DAYS'') (Num 2555))),
   (''CONSENT_HASH_ALGORITHM'', VStr (orElse (env ''CONSENT_HASH_ALGORITHM'') ''sha256'')),
   (''CIRCUIT_BREAKER_ENABLED'', VBool (parseBoolean (env ''CIRCUIT_BREAKER_ENABLED'') True)),
   (''CIRCUIT_BREAKER_FAILURE_THRESHOLD'', VNum (parseInt N (env ''CIRCUIT_BREAKER_FAILURE_THRESHOLD'') (Num 5))),
   (''CIRCUIT_BREAKER_TIMEOUT'', VNum (parseInt N (env ''CIRCUIT_BREAKER_TIMEOUT'') (Num 60000))),
   (''CIRCUIT_BREAKER_RESET_TIMEOUT'', VNum (parseInt N (env ''CIRCUIT_BREAKER_RESET_TIMEOUT'') (Num 30000))),
   (''FEATURE_WEBSOCKET_STREAMING'', VBool (parseBoolean (env ''FEATURE_WEBSOCKET_STREAMING'') True)),
   (''FEATURE_BATCH_PROCESSING'', VBool (parseBoolean (env ''FEATURE_BATCH_PROCESSING'') True)),
   (''FEATURE_AGENT_INTEGRATION'', VBool (parseBoolean (env ''FEATURE_AGENT_INTEGRATION'') True)),
   (''FEATURE_TEAM_SHARING'', VBool (parseBoolean (env ''FEATURE_TEAM_SHARING'') False)),
   (''FEATURE_ADVANCED_ANALYTICS'', VBool (parseBoolean (env ''FEATURE_ADVANCED_ANALYTICS'') False)),
   (''MOCK_ASR_ENABLED'', VBool (parseBoolean (env ''MOCK_ASR_ENABLED'') False)),
   (''MOCK_EMBEDDING_ENABLED'', VBool (parseBoolean (env ''MOCK_EMBEDDING_ENABLED'') False)),
   (''SEED_DATA_ENABLED'', VBool (parseBoolean (env ''SEED_DATA_ENABLED'') False))
  ]"

text \<open>Reading a property: a name the object does not have reads as \<^verbatim>\<open>undefined\<close>.\<close>

definition property :: "(string \<times> jsval) list \<Rightarrow> string \<Rightarrow> jsval" where
  "property obj key = (case map_of obj key of None \<Rightarrow> VUndefined | Some v \<Rightarrow> v)"

section \<open>Database manager (config/database.js, in src/unnamed/part_000)\<close>

text \<open>
  The driver's objects are values that record how they were made:
  \<^verbatim>\<open>new MongoClient(uri, options)\<close>, \<^verbatim>\<open>client.db(name)\<close> and \<^verbatim>\<open>db.collection(name)\<close>.
  A field that holds \<^verbatim>\<open>null\<close> is \<open>None\<close>.
\<close>

datatype MongoClient = MongoClient jsval

datatype Db = Db MongoClient jsval

datatype Collection = Collection Db string

record DatabaseManager =
  client :: "MongoClient option"
  db :: "Db option"
  isConnected :: bool
  isConnecting :: bool
  reconnectAttempts :: nat
  maxReconnectAttempts :: nat
  reconnectDelay :: nat

definition constructor :: DatabaseManager where
  "constructor =
     \<lparr>client = None, db = None, isConnected = False, isConnecting = False,
      reconnectAttempts = 0, maxReconnectAttempts = 5, reconnectDelay = 5000\<rparr>"

datatype error = Error string

text \<open>
  What a call does besides changing the manager: log lines, calls into the driver and
  timers, in the order they happen.
\<close>

datatype effect =
    LogInfo string
  | LogError string
  | NewMongoClient
  | ClientConnect
  | AdminPing
  | SetupEventHandlers
  | InitializeCollections
  | SetTimeout nat

text \<open>
  The outcome of an \<^verbatim>\<open>async\<close> call: the promise is resolved with a value, rejected with
  an error message, or stays pending until a later event settles it.
\<close>

datatype 'a promise = Resolved 'a | Rejected string | Pending

text \<open>
  What the driver does during one connection attempt: the step of the \<^verbatim>\<open>try\<close> block
  that throws, with the error's message, or none.
\<close>

datatype attempt =
    ConstructorThrows string
  | ConnectRejects string
  | PingRejects string
  | InitializeCollectionsRejects string
  | Succeeds

fun showNat :: "nat \<Rightarrow> string" where
  "showNat n =
     (if n < 10 then [''0123456789'' ! n]
      else showNat (n div 10) @ [''0123456789'' ! (n mod 10)])"

declare showNat.simps [simp del]

text \<open>The \<^verbatim>\<open>catch\<close> block of \<^verbatim>\<open>connect\<close>, entered with the effects so far.\<close>

definition connectFailed ::
  "string \<Rightarrow> DatabaseManager \<Rightarrow> effect list \<Rightarrow> Db option promise \<times> DatabaseManager \<times> effect list" where
  "connectFailed message m effs =
     (let m2 = m\<lparr>isConnecting := False, isConnected := False\<rparr>;
          effs2 = effs @ [LogError ''MongoDB connection failed'']
      in if reconnectAttempts m2 < maxReconnectAttempts m2 then
           (let m3 = m2\<lparr>reconnectAttempts := reconnectAttempts m2 + 1\<rparr>
            in (Resolved None, m3,
                effs2 @ [LogInfo (''Retrying MongoDB connection in '' @ showNat (reconnectDelay m3) @ ''ms''),
                         SetTimeout (reconnectDelay m3 * reconnectAttempts m3)]))
         else
           (Rejected (''Failed to connect to MongoDB after '' @ showNat (maxReconnectAttempts m2)
                        @ '' attempts: '' @ message),
            m2, effs2))"

definition connect ::
  "Number \<Rightarrow> (string \<rightharpoonup> string) \<Rightarrow> attempt \<Rightarrow> DatabaseManager
     \<Rightarrow> Db option promise \<times> DatabaseManager \<times> effect list" where
  "connect N env att m =
     (if isConnected m then
        (Resolved (db m), m, [LogInfo ''Database already connected''])
      else if isConnecting m then
        (Pending, m, [LogInfo ''Database connection already in progress''])
      else
        (let m1 = m\<lparr>isConnecting := True\<rparr>;
             c = MongoClient (property (config N env) ''MONGODB_URI'');
             d = Db c (property (config N env) ''MONGODB_DB_NAME'');
             e0 = [LogInfo ''Connecting to MongoDB Atlas...'', NewMongoClient]
         in case att of
              ConstructorThrows message \<Rightarrow> connectFailed message m1 e0
            | ConnectRejects message \<Rightarrow>
                connectFailed message (m1\<lparr>client := Some c\<rparr>) (e0 @ [ClientConnect])
            | PingRejects message \<Rightarrow>
                connectFailed message (m1\<lparr>client := Some c\<rparr>) (e0 @ [ClientConnect, AdminPing])
            | InitializeCollectionsRejects message \<Rightarrow>
                connectFailed message (m1\<lparr>client := Some c, db := Some d\<rparr>)
                  (e0 @ [ClientConnect, AdminPing, SetupEventHandlers, InitializeCollections])
            | Succeeds \<Rightarrow>
                (Resolved (Some d),
                 m1\<lparr>client := Some c, db := Some d, isConnected := True, isConnecting := False,
                    reconnectAttempts := 0\<rparr>,
                 e0 @ [ClientConnect, AdminPing, SetupEventHandlers, InitializeCollections,
                       LogInfo ''MongoDB Atlas connection established''])))"

text \<open>
  \<^verbatim>\<open>getDatabase\<close> and \<^verbatim>\<open>getCollection\<close> return the value or the error thrown, and the
  manager as the call leaves it.
\<close>

definition getDatabase :: "DatabaseManager \<Rightarrow> (error + Db) \<times> DatabaseManager" where
  "getDatabase m =
     (if \<not> isConnected m \<or> db m = None then
        (Inl (Error ''Database not connected. Call connect() first.''), m)
      else (Inr (the (db m)), m))"

definition getCollection :: "string \<Rightarrow> DatabaseManager \<Rightarrow> (error + Collection) \<times> DatabaseManager" where
  "getCollection name m =
     (case getDatabase m of
        (Inl e, m') \<Rightarrow> (Inl e, m')
      | (Inr d, m') \<Rightarrow> (Inr (Collection d name), m'))"

section \<open>The options the specification names\<close>

text \<open>
  The specification's words, for comparison with \<open>config\<close>: its section 6 lists the
  engine's recognised options with these defaults.
\<close>

definition specOptionDefaults :: "(string \<times> jsval) list" where
  "specOptionDefaults =
     [(''vectorWeight'', VNum (Num 0.6)),
      (''textWeight'', VNum (Num 0.4)),
      (''directLookupWeight'', VNum (Num 0.2)),
      (''k'', VNum (Num 20)),
      (''fanoutMultiplier'', VNum (Num 5)),
      (''minCandidatePool'', VNum (Num 100)),
      (''rrfOffsetConstant'', VNum (Num 60)),
      (''freshnessThresholdSeconds'', VNum (Num 60)),
      (''rerankTopK'', VNum (Num 20)),
      (''rerankingEnabled'', VBool True),
      (''breakerFailureThreshold'', VNum (Num 5)),
      (''breakerOpenTimeoutSeconds'', VNum (Num 60)),
      (''breakerResetTimeoutSeconds'', VNum (Num 30)),
      (''minRelevanceScore'', VNum (Num 0.7))]"

section \<open>The built-ins on the strings of the examples\<close>

text \<open>
  For the examples below, the answers of the built-ins on the strings the examples pass:
  \<^verbatim>\<open>Number.parseInt(' 8080/tcp', 10)\<close> is 8080 and \<^verbatim>\<open>Number.parseFloat('-2.5e1x')\<close> is -25,
  leading white space and trailing text being ignored; the other strings of the examples
  (\<^verbatim>\<open>'abc'\<close>, \<^verbatim>\<open>'.'\<close> and the empty string) hold no number and give \<open>NaN\<close>. No example
  passes any other string; the table answers \<open>NaN\<close> there.
\<close>

definition builtinsOnExamples :: Number where
  "builtinsOnExamples =
     \<lparr>Number_parseInt = (\<lambda>s radix. if s = '' 8080/tcp'' \<and> radix = 10 then Num 8080 else NaN),
      Number_parseFloat = (\<lambda>s. if s = ''-2.5e1x'' then Num (- 25) else NaN)\<rparr>"

section \<open>Reciprocal rank fusion (RRFMerger)\<close>

text \<open>
  Modelled from the spec: the \<^verbatim>\<open>Candidate\<close> of section 3, which no source file declares. The
  field \<^verbatim>\<open>id\<close> is \<open>candidate_id\<close>. Scores are exact rationals.
\<close>

record Candidate =
  candidate_id :: string
  sourceRank :: nat
  sourceScore :: rat
  sourceName :: string
  snippet :: string
  rawPayloadRef :: string

text \<open>
  Modelled from the spec: the \<^verbatim>\<open>FusedResult\<close> of section 3, which no source file declares. The
  field \<^verbatim>\<open>id\<close> is \<open>fused_id\<close>; the set \<^verbatim>\<open>contributingSources\<close> is a list without
  repetition.
\<close>

record FusedResult =
  fused_id :: string
  fusedScore :: rat
  contributingSources :: "string list"
  bestSnippet :: string

text \<open>
  Modelled from the spec: the merger's two settings (section 4.2), the offset constant of
  the contribution formula and the pool size its output is truncated to. The sources hold
  no merger; \<^verbatim>\<open>HybridSearchService.search\<close> of the roadmap only calls one.
\<close>

record RRFMerger =
  offsetConstant :: nat
  poolSize :: nat

text \<open>
  Modelled from the spec: a merger built from the configuration, where
  \<^verbatim>\<open>rrfOffsetConstant\<close> defaults to 60 (section 6) when it is not configured.
\<close>

definition newRRFMerger :: "nat option \<Rightarrow> nat \<Rightarrow> RRFMerger" where
  "newRRFMerger configuredOffset pool =
     \<lparr>offsetConstant = (case configuredOffset of None \<Rightarrow> 60 | Some k \<Rightarrow> k), poolSize = pool\<rparr>"

text \<open>
  Modelled from the spec: the accumulation step of \<^verbatim>\<open>merge\<close> (section 4.2, absent from the
  sources). One contribution is added to the result that carries the candidate's id, which
  is created when the id is new, so that an id met in several lists ends in exactly one
  result. The specification does not say which snippet is the best one; the first one met
  is kept.
\<close>

fun addContribution :: "Candidate \<Rightarrow> rat \<Rightarrow> FusedResult list \<Rightarrow> FusedResult list" where
  "addContribution c x [] =
     [\<lparr>fused_id = candidate_id c, fusedScore = x, contributingSources = [sourceName c],
       bestSnippet = snippet c\<rparr>]"
| "addContribution c x (f # fs) =
     (if fused_id f = candidate_id c then
        f\<lparr>fusedScore := fusedScore f + x,
          contributingSources := List.insert (sourceName c) (contributingSources f)\<rparr> # fs
      else f # addContribution c x fs)"

text \<open>
  Modelled from the spec: one source list walked in rank order (section 4.2, absent from
  the sources). The candidate at rank \<open>r\<close>, counted from 1 by position in its list,
  contributes \<open>weights (sourceName c) / (r + k)\<close> for the offset constant \<open>k\<close>. The weights
  are used as given: scaling all of them by one factor scales every score alike.
\<close>

fun fuseList ::
  "(string \<Rightarrow> rat) \<Rightarrow> nat \<Rightarrow> nat \<Rightarrow> Candidate list \<Rightarrow> FusedResult list \<Rightarrow> FusedResult list" where
  "fuseList weights k r [] acc = acc"
| "fuseList weights k r (c # cs) acc =
     fuseList weights k (Suc r) cs
       (addContribution c (weights (sourceName c) / of_nat (r + k)) acc)"

text \<open>
  Modelled from the spec: all source lists accumulated, each from rank 1 (section 4.2,
  absent from the sources).
\<close>

definition fuse :: "(string \<Rightarrow> rat) \<Rightarrow> nat \<Rightarrow> Candidate list list \<Rightarrow> FusedResult list" where
  "fuse weights k rankedLists = foldl (\<lambda>acc l. fuseList weights k 1 l acc) [] rankedLists"

text \<open>
  Modelled from the spec: the order of the output (section 4.2, absent from the sources):
  higher \<^verbatim>\<open>fusedScore\<close> first; on equal scores the result present in more sources; then
  the lexicographically smaller id.
\<close>

definition ranksBefore :: "FusedResult \<Rightarrow> FusedResult \<Rightarrow> bool" where
  "ranksBefore a b =
     (fusedScore a > fusedScore b
      \<or> (fusedScore a = fusedScore b
          \<and> (length (contributingSources a) > length (contributingSources b)
              \<or> (length (contributingSources a) = length (contributingSources b)
                  \<and> fused_id a < fused_id b))))"

text \<open>
  Modelled from the spec: the sort of the fused results by \<open>ranksBefore\<close>, as an insertion
  sort (section 4.2 asks for a sorted output and names no algorithm).
\<close>

fun insertRanked :: "FusedResult \<Rightarrow> FusedResult list \<Rightarrow> FusedResult list" where
  "insertRanked x [] = [x]"
| "insertRanked x (y # ys) = (if ranksBefore x y then x # y # ys else y # insertRanked x ys)"

text \<open>Modelled from the spec: the whole sort (section 4.2, absent from the sources).\<close>

definition sortRanked :: "FusedResult list \<Rightarrow> FusedResult list" where
  "sortRanked xs = foldr insertRanked xs []"

text \<open>
  Modelled from the spec: \<^verbatim>\<open>merge(lists, weights)\<close> of section 4.2, which the sources call
  (\<^verbatim>\<open>mergeWithRRF\<close> in the roadmap) and do not define: fuse, sort, truncate to the pool
  size. \<open>weights\<close> gives every source name its weight.
\<close>

definition merge :: "RRFMerger \<Rightarrow> Candidate list list \<Rightarrow> (string \<Rightarrow> rat) \<Rightarrow> FusedResult list" where
  "merge M rankedLists weights =
     take (poolSize M) (sortRanked (fuse weights (offsetConstant M) rankedLists))"

text \<open>
  The specification's words for one source's contribution to the id \<open>i\<close>:
  \<open>weight[source] / (r + offsetConstant)\<close> for the candidate with that id, at its 1-based
  rank \<open>r\<close> in the source's list, and nothing when the list does not hold the id.
\<close>

definition rankedContribution ::
  "(string \<Rightarrow> rat) \<Rightarrow> nat \<Rightarrow> Candidate list \<Rightarrow> string \<Rightarrow> rat" where
  "rankedContribution weights k l i =
     (case find (\<lambda>(r, c). candidate_id c = i) (enumerate 1 l) of
        None \<Rightarrow> 0
      | Some (r, c) \<Rightarrow> weights (sourceName c) / of_nat (r + k))"

text \<open>The specification's words for the fused score: the sum over the sources.\<close>

definition rrfScore :: "(string \<Rightarrow> rat) \<Rightarrow> nat \<Rightarrow> Candidate list list \<Rightarrow> string \<Rightarrow> rat" where
  "rrfScore weights k rankedLists i = (\<Sum>l\<leftarrow>rankedLists. rankedContribution weights k l i)"

text \<open>
  Auxiliary to the proofs: the score an accumulator holds for an id, and the contribution
  of a list walked from rank \<open>r\<close>.
\<close>

definition scoreOf :: "FusedResult list \<Rightarrow> string \<Rightarrow> rat" where
  "scoreOf acc i = (\<Sum>f\<leftarrow>filter (\<lambda>f. fused_id f = i) acc. fusedScore f)"

fun contributionFrom ::
  "(string \<Rightarrow> rat) \<Rightarrow> nat \<Rightarrow> nat \<Rightarrow> Candidate list \<Rightarrow> string \<Rightarrow> rat" where
  "contributionFrom weights k r [] i = 0"
| "contributionFrom weights k r (c # cs) i =
     (if candidate_id c = i then weights (sourceName c) / of_nat (r + k) else 0)
       + contributionFrom weights k (Suc r) cs i"

subsection \<open>Example inputs\<close>

text \<open>
  The lists and weights of the fusion scenario in section 8 of the specification: the
  vector source returns A, B, C and the text source B, A, D, with weights 0.6 and 0.4.
\<close>

definition scenarioVector :: "Candidate list" where
  "scenarioVector =
     [\<lparr>candidate_id = ''A'', sourceRank = 1, sourceScore = 0.93, sourceName = ''vector'',
        snippet = ''a'', rawPayloadRef = ''ref-a''\<rparr>,
      \<lparr>candidate_id = ''B'', sourceRank = 2, sourceScore = 0.90, sourceName = ''vector'',
        snippet = ''b'', rawPayloadRef = ''ref-b''\<rparr>,
      \<lparr>candidate_id = ''C'', sourceRank = 3, sourceScore = 0.71, sourceName = ''vector'',
        snippet = ''c'', rawPayloadRef = ''ref-c''\<rparr>]"

definition scenarioText :: "Candidate list" where
  "scenarioText =
     [\<lparr>candidate_id = ''B'', sourceRank = 1, sourceScore = 12.5, sourceName = ''text'',
        snippet = ''b'', rawPayloadRef = ''ref-b''\<rparr>,
      \<lparr>candidate_id = ''A'', sourceRank = 2, sourceScore = 11, sourceName = ''text'',
        snippet = ''a'', rawPayloadRef = ''ref-a''\<rparr>,
      \<lparr>candidate_id = ''D'', sourceRank = 3, sourceScore = 4, sourceName = ''text'',
        snippet = ''d'', rawPayloadRef = ''ref-d''\<rparr>]"

definition scenarioWeights :: "string \<Rightarrow> rat" where
  "scenarioWeights = (\<lambda>_. 0)(''vector'' := 0.6, ''text'' := 0.4)"



section \<open>Circuit breaker\<close>









text \<open>
  Modelled from the spec: what the caller of a guarded upstream receives; \<open>NotAttempted\<close>
  is the degraded result of an open breaker.
\<close>

datatype 'a guarded = NotAttempted | Returned 'a | Failed




section \<open>Properties of the configuration manager\<close>

lemma parseInt_not_NaN [simp]: "parseInt N v (Num d) \<noteq> NaN"
  by (cases v) (simp_all add: parseInt_def Number_isNaN_def Let_def)

lemma parseFloat_not_NaN [simp]: "parseFloat N v (Num d) \<noteq> NaN"
  by (cases v) (simp_all add: parseFloat_def Number_isNaN_def Let_def)

lemma envValue_not_VNum [simp]: "envValue v \<noteq> VNum x"
  by (cases v) (simp_all add: envValue_def)

lemma config_no_NaN: "list_all (\<lambda>(key, v). v \<noteq> VNum NaN) (config N env)"
  by (simp add: config_def)

text \<open>
  C8. \<open>parseInt\<close> and \<open>parseFloat\<close> return the supplied default when the variable is unset
  or the built-in parser yields \<open>NaN\<close>, and the parsed number otherwise, whatever the
  built-ins answer. The supplied default is a number: with a default other than \<open>NaN\<close>
  neither helper returns \<open>NaN\<close>. The helpers are private to the module and every call of
  them, all in \<open>config\<close>, passes a numeric literal, so that no property of \<open>config\<close> is
  \<open>NaN\<close> in any environment.
\<close>

theorem parse_helpers_default_or_parsed:
  "(v = None \<longrightarrow> parseInt N v d = d \<and> parseFloat N v d = d)
   \<and> (v = Some s \<and> Number_parseInt N s 10 = NaN \<longrightarrow> parseInt N v d = d)
   \<and> (v = Some s \<and> Number_parseInt N s 10 \<noteq> NaN \<longrightarrow> parseInt N v d = Number_parseInt N s 10)
   \<and> (v = Some s \<and> Number_parseFloat N s = NaN \<longrightarrow> parseFloat N v d = d)
   \<and> (v = Some s \<and> Number_parseFloat N s \<noteq> NaN \<longrightarrow> parseFloat N v d = Number_parseFloat N s)
   \<and> (d \<noteq> NaN \<longrightarrow> parseInt N v d \<noteq> NaN \<and> parseFloat N v d \<noteq> NaN)
   \<and> VNum NaN \<notin> snd ` set (config N env)"
proof -
  have "VNum NaN \<notin> snd ` set (config N env)"
    using config_no_NaN [of N env] by (auto simp: list_all_iff)
  then show ?thesis
    by (cases v) (simp_all add: parseInt_def parseFloat_def Number_isNaN_def Let_def)
qed

theorem parse_helpers_witness:
  "parseInt builtinsOnExamples None (Num 3000) = Num 3000
   \<and> parseFloat builtinsOnExamples None (Num 0.6) = Num 0.6
   \<and> parseInt builtinsOnExamples (Some ''abc'') (Num 20) = Num 20
   \<and> parseInt builtinsOnExamples (Some '' 8080/tcp'') (Num 3000) = Num 8080
   \<and> parseFloat builtinsOnExamples (Some ''.'') (Num 0.6) = Num 0.6
   \<and> parseFloat builtinsOnExamples (Some ''-2.5e1x'') (Num 0.6) = Num (- 25)
   \<and> parseInt builtinsOnExamples (Some []) (Num 20) \<noteq> NaN
   \<and> VNum NaN \<notin> snd ` set (config builtinsOnExamples [''PORT'' \<mapsto> ''abc''])"
  using parse_helpers_default_or_parsed
      [where N = builtinsOnExamples and v = None and d = "Num 3000"]
    parse_helpers_default_or_parsed
      [where N = builtinsOnExamples and v = None and d = "Num 0.6"]
    parse_helpers_default_or_parsed
      [where N = builtinsOnExamples and v = "Some ''abc''" and s = "''abc''" and d = "Num 20"]
    parse_helpers_default_or_parsed
      [where N = builtinsOnExamples and v = "Some '' 8080/tcp''" and s = "'' 8080/tcp''"
         and d = "Num 3000"]
    parse_helpers_default_or_parsed
      [where N = builtinsOnExamples and v = "Some ''.''" and s = "''.''" and d = "Num 0.6"]
    parse_helpers_default_or_parsed
      [where N = builtinsOnExamples and v = "Some ''-2.5e1x''" and s = "''-2.5e1x''"
         and d = "Num 0.6"]
    parse_helpers_default_or_parsed
      [where N = builtinsOnExamples and v = "Some []" and s = "[]" and d = "Num 20"
         and env = "[''PORT'' \<mapsto> ''abc'']"]
  by (simp add: builtinsOnExamples_def)

subsection \<open>The defaults of the engine's options\<close>

lemma HYBRID_VECTOR_WEIGHT:
  "map_of (config N env) ''HYBRID_VECTOR_WEIGHT''
     = Some (VNum (parseFloat N (env ''HYBRID_VECTOR_WEIGHT'') (Num 0.6)))"
  by code_simp

lemma HYBRID_TEXT_WEIGHT:
  "map_of (config N env) ''HYBRID_TEXT_WEIGHT''
     = Some (VNum (parseFloat N (env ''HYBRID_TEXT_WEIGHT'') (Num 0.4)))"
  by code_simp

lemma HYBRID_TOP_K:
  "map_of (config N env) ''HYBRID_TOP_K'' = Some (VNum (parseInt N (env ''HYBRID_TOP_K'') (Num 20)))"
  by code_simp

lemma HYBRID_VECTOR_CANDIDATES:
  "map_of (config N env) ''HYBRID_VECTOR_CANDIDATES''
     = Some (VNum (parseInt N (env ''HYBRID_VECTOR_CANDIDATES'') (Num 100)))"
  by code_simp

lemma HYBRID_MIN_SCORE:
  "map_of (config N env) ''HYBRID_MIN_SCORE''
     = Some (VNum (parseFloat N (env ''HYBRID_MIN_SCORE'') (Num 0.7)))"
  by code_simp

lemma RERANKING_ENABLED:
  "map_of (config N env) ''RERANKING_ENABLED''
     = Some (VBool (parseBoolean (env ''RERANKING_ENABLED'') True))"
  by code_simp

lemma RERANKING_TOP_K:
  "map_of (config N env) ''RERANKING_TOP_K''
     = Some (VNum (parseInt N (env ''RERANKING_TOP_K'') (Num 20)))"
  by code_simp

lemma CIRCUIT_BREAKER_FAILURE_THRESHOLD:
  "map_of (config N env) ''CIRCUIT_BREAKER_FAILURE_THRESHOLD''
     = Some (VNum (parseInt N (env ''CIRCUIT_BREAKER_FAILURE_THRESHOLD'') (Num 5)))"
  by code_simp

lemma CIRCUIT_BREAKER_TIMEOUT:
  "map_of (config N env) ''CIRCUIT_BREAKER_TIMEOUT''
     = Some (VNum (parseInt N (env ''CIRCUIT_BREAKER_TIMEOUT'') (Num 60000)))"
  by code_simp

lemma CIRCUIT_BREAKER_RESET_TIMEOUT:
  "map_of (config N env) ''CIRCUIT_BREAKER_RESET_TIMEOUT''
     = Some (VNum (parseInt N (env ''CIRCUIT_BREAKER_RESET_TIMEOUT'') (Num 30000)))"
  by code_simp

lemma options_without_counterpart:
  "map_of (config N env) ''directLookupWeight'' = None"
  "map_of (config N env) ''fanoutMultiplier'' = None"
  "map_of (config N env) ''rrfOffsetConstant'' = None"
  "map_of (config N env) ''freshnessThresholdSeconds'' = None"
  by code_simp+

lemma property_in_values:
  "property obj key = v \<Longrightarrow> v \<noteq> VUndefined \<Longrightarrow> v \<in> snd ` set obj"
  by (auto simp: property_def split: option.splits dest: map_of_SomeD intro: rev_image_eqI)

lemma no_default_60: "VNum (Num 60) \<notin> snd ` set (config N Map.empty)"
  by code_simp

lemma no_default_one_fifth: "VNum (Num 0.2) \<notin> snd ` set (config N Map.empty)"
  by code_simp

text \<open>
  C7, as amended. The configuration object holds, for the engine, the options
  \<^verbatim>\<open>HYBRID_VECTOR_WEIGHT\<close> (default 0.6), \<^verbatim>\<open>HYBRID_TEXT_WEIGHT\<close> (0.4), \<^verbatim>\<open>HYBRID_TOP_K\<close> (20),
  \<^verbatim>\<open>HYBRID_VECTOR_CANDIDATES\<close> (100), \<^verbatim>\<open>HYBRID_MIN_SCORE\<close> (0.7), \<^verbatim>\<open>RERANKING_TOP_K\<close> (20),
  \<^verbatim>\<open>RERANKING_ENABLED\<close> (true), \<^verbatim>\<open>CIRCUIT_BREAKER_FAILURE_THRESHOLD\<close> (5),
  \<^verbatim>\<open>CIRCUIT_BREAKER_TIMEOUT\<close> (60000, in milliseconds) and
  \<^verbatim>\<open>CIRCUIT_BREAKER_RESET_TIMEOUT\<close> (30000, in milliseconds); each default is the value
  used when the variable of that name is not supplied. It has no property named
  \<^verbatim>\<open>directLookupWeight\<close>, \<^verbatim>\<open>fanoutMultiplier\<close>, \<^verbatim>\<open>rrfOffsetConstant\<close> or
  \<^verbatim>\<open>freshnessThresholdSeconds\<close>.
\<close>

theorem config_engine_option_defaults:
  "(env ''HYBRID_VECTOR_WEIGHT'' = None
      \<longrightarrow> property (config N env) ''HYBRID_VECTOR_WEIGHT'' = VNum (Num 0.6))
   \<and> (env ''HYBRID_TEXT_WEIGHT'' = None
      \<longrightarrow> property (config N env) ''HYBRID_TEXT_WEIGHT'' = VNum (Num 0.4))
   \<and> (env ''HYBRID_TOP_K'' = None
      \<longrightarrow> property (config N env) ''HYBRID_TOP_K'' = VNum (Num 20))
   \<and> (env ''HYBRID_VECTOR_CANDIDATES'' = None
      \<longrightarrow> property (config N env) ''HYBRID_VECTOR_CANDIDATES'' = VNum (Num 100))
   \<and> (env ''HYBRID_MIN_SCORE'' = None
      \<longrightarrow> property (config N env) ''HYBRID_MIN_SCORE'' = VNum (Num 0.7))
   \<and> (env ''RERANKING_TOP_K'' = None
      \<longrightarrow> property (config N env) ''RERANKING_TOP_K'' = VNum (Num 20))
   \<and> (env ''RERANKING_ENABLED'' = None
      \<longrightarrow> property (config N env) ''RERANKING_ENABLED'' = VBool True)
   \<and> (env ''CIRCUIT_BREAKER_FAILURE_THRESHOLD'' = None
      \<longrightarrow> property (config N env) ''CIRCUIT_BREAKER_FAILURE_THRESHOLD'' = VNum (Num 5))
   \<and> (env ''CIRCUIT_BREAKER_TIMEOUT'' = None
      \<longrightarrow> property (config N env) ''CIRCUIT_BREAKER_TIMEOUT'' = VNum (Num 60000))
   \<and> (env ''CIRCUIT_BREAKER_RESET_TIMEOUT'' = None
      \<longrightarrow> property (config N env) ''CIRCUIT_BREAKER_RESET_TIMEOUT'' = VNum (Num 30000))
   \<and> property (config N env) ''directLookupWeight'' = VUndefined
   \<and> property (config N env) ''fanoutMultiplier'' = VUndefined
   \<and> property (config N env) ''rrfOffsetConstant'' = VUndefined
   \<and> property (config N env) ''freshnessThresholdSeconds'' = VUndefined"
  unfolding property_def HYBRID_VECTOR_WEIGHT HYBRID_TEXT_WEIGHT HYBRID_TOP_K
    HYBRID_VECTOR_CANDIDATES HYBRID_MIN_SCORE RERANKING_TOP_K RERANKING_ENABLED
    CIRCUIT_BREAKER_FAILURE_THRESHOLD CIRCUIT_BREAKER_TIMEOUT CIRCUIT_BREAKER_RESET_TIMEOUT
    options_without_counterpart
  by (simp add: parseInt_def parseFloat_def parseBoolean_def)

theorem config_engine_option_defaults_witness:
  "property (config builtinsOnExamples Map.empty) ''HYBRID_VECTOR_WEIGHT'' = VNum (Num 0.6)
   \<and> property (config builtinsOnExamples Map.empty) ''HYBRID_TEXT_WEIGHT'' = VNum (Num 0.4)
   \<and> property (config builtinsOnExamples Map.empty) ''HYBRID_TOP_K'' = VNum (Num 20)
   \<and> property (config builtinsOnExamples Map.empty) ''HYBRID_VECTOR_CANDIDATES'' = VNum (Num 100)
   \<and> property (config builtinsOnExamples Map.empty) ''HYBRID_MIN_SCORE'' = VNum (Num 0.7)
   \<and> property (config builtinsOnExamples Map.empty) ''RERANKING_TOP_K'' = VNum (Num 20)
   \<and> property (config builtinsOnExamples Map.empty) ''RERANKING_ENABLED'' = VBool True
   \<and> property (config builtinsOnExamples Map.empty) ''CIRCUIT_BREAKER_FAILURE_THRESHOLD'' = VNum (Num 5)
   \<and> property (config builtinsOnExamples Map.empty) ''CIRCUIT_BREAKER_TIMEOUT'' = VNum (Num 60000)
   \<and> property (config builtinsOnExamples Map.empty) ''CIRCUIT_BREAKER_RESET_TIMEOUT'' = VNum (Num 30000)
   \<and> property (config builtinsOnExamples Map.empty) ''rrfOffsetConstant'' = VUndefined"
  using config_engine_option_defaults [of Map.empty builtinsOnExamples] by simp

text \<open>
  C7 as stated fails on \<open>config\<close>: with nothing supplied, the defaults the specification
  names are not all defaults of the object, under whatever property name and whatever the
  built-ins answer. No property has the value 60 that the specification gives
  \<^verbatim>\<open>rrfOffsetConstant\<close>, \<^verbatim>\<open>freshnessThresholdSeconds\<close> and \<^verbatim>\<open>breakerOpenTimeoutSeconds\<close>,
  and none has the 0.2 of \<^verbatim>\<open>directLookupWeight\<close>.
\<close>

theorem config_spec_options_counterexample:
  "\<not> (\<exists>N. \<forall>(n, d) \<in> set specOptionDefaults. \<exists>key. property (config N Map.empty) key = d)
   \<and> (\<forall>N. VNum (Num 60) \<notin> snd ` set (config N Map.empty))
   \<and> (\<forall>N. VNum (Num 0.2) \<notin> snd ` set (config N Map.empty))"
proof (intro conjI allI)
  show "\<not> (\<exists>N. \<forall>(n, d) \<in> set specOptionDefaults. \<exists>key. property (config N Map.empty) key = d)"
  proof
    assume "\<exists>N. \<forall>(n, d) \<in> set specOptionDefaults. \<exists>key. property (config N Map.empty) key = d"
    then obtain N where
      a: "\<forall>(n, d) \<in> set specOptionDefaults. \<exists>key. property (config N Map.empty) key = d" ..
    have "(''rrfOffsetConstant'', VNum (Num 60)) \<in> set specOptionDefaults"
      by (simp add: specOptionDefaults_def)
    with a obtain key where "property (config N Map.empty) key = VNum (Num 60)"
      by fastforce
    then have "VNum (Num 60) \<in> snd ` set (config N Map.empty)"
      by (rule property_in_values) simp
    with no_default_60 show False by contradiction
  qed
qed (rule no_default_60 no_default_one_fifth)+

section \<open>Properties of the database manager\<close>

text \<open>
  C9. When the manager is not connected (\<open>isConnected\<close> is false or \<open>db\<close> is null),
  \<open>getDatabase\<close> and \<open>getCollection\<close> throw the error that says the database is not
  connected, and return no handle. Neither call changes the manager, connected or not.
\<close>

theorem getDatabase_getCollection_not_connected:
  "(\<not> isConnected m \<or> db m = None \<longrightarrow>
      fst (getDatabase m) = Inl (Error ''Database not connected. Call connect() first.'')
      \<and> fst (getCollection name m) = Inl (Error ''Database not connected. Call connect() first.''))
   \<and> snd (getDatabase m) = m \<and> snd (getCollection name m) = m"
  by (simp add: getDatabase_def getCollection_def)

theorem getDatabase_getCollection_not_connected_witness:
  "getDatabase constructor
     = (Inl (Error ''Database not connected. Call connect() first.''), constructor)
   \<and> getCollection ''users'' (constructor\<lparr>isConnected := True\<rparr>)
     = (Inl (Error ''Database not connected. Call connect() first.''),
        constructor\<lparr>isConnected := True\<rparr>)
   \<and> getCollection ''users''
        (constructor\<lparr>db := Some (Db (MongoClient VUndefined) (VStr ''ai_audio_kb''))\<rparr>)
     = (Inl (Error ''Database not connected. Call connect() first.''),
        constructor\<lparr>db := Some (Db (MongoClient VUndefined) (VStr ''ai_audio_kb''))\<rparr>)"
  using getDatabase_getCollection_not_connected [of constructor "''users''"]
    getDatabase_getCollection_not_connected
      [of "constructor\<lparr>isConnected := True\<rparr>" "''users''"]
    getDatabase_getCollection_not_connected
      [of "constructor\<lparr>db := Some (Db (MongoClient VUndefined) (VStr ''ai_audio_kb''))\<rparr>"
          "''users''"]
  by (simp add: constructor_def prod_eq_iff)

text \<open>
  C10. Once \<open>isConnected\<close> is true, \<open>connect\<close> resolves with the handle the manager
  already holds and leaves the whole manager as it was, whatever the driver would have
  done: the only effect is the log line, and no client is created or connected.
\<close>

theorem connect_idempotent_once_connected:
  "isConnected m \<Longrightarrow>
     connect N env att m = (Resolved (db m), m, [LogInfo ''Database already connected''])"
  by (simp add: connect_def)

lemma connect_Succeeds_constructor:
  "connect builtinsOnExamples Map.empty Succeeds constructor
     = (Resolved (Some (Db (MongoClient VUndefined) (VStr ''ai_audio_kb''))),
        constructor\<lparr>client := Some (MongoClient VUndefined),
          db := Some (Db (MongoClient VUndefined) (VStr ''ai_audio_kb'')),
          isConnected := True\<rparr>,
        [LogInfo ''Connecting to MongoDB Atlas...'', NewMongoClient, ClientConnect, AdminPing,
         SetupEventHandlers, InitializeCollections,
         LogInfo ''MongoDB Atlas connection established''])"
  by code_simp

theorem connect_idempotent_once_connected_witness:
  "connect builtinsOnExamples Map.empty (ConnectRejects ''unreachable'')
       (fst (snd (connect builtinsOnExamples Map.empty Succeeds constructor)))
     = (Resolved (Some (Db (MongoClient VUndefined) (VStr ''ai_audio_kb''))),
        fst (snd (connect builtinsOnExamples Map.empty Succeeds constructor)),
        [LogInfo ''Database already connected''])"
  using connect_idempotent_once_connected
    [of "fst (snd (connect builtinsOnExamples Map.empty Succeeds constructor))"
        builtinsOnExamples Map.empty "ConnectRejects ''unreachable''"]
  by (simp add: connect_Succeeds_constructor)

section \<open>Properties of reciprocal rank fusion\<close>

subsection \<open>Scores and ids under accumulation\<close>

lemma scoreOf_addContribution:
  "scoreOf (addContribution c x acc) i = scoreOf acc i + (if candidate_id c = i then x else 0)"
  by (induction acc) (auto simp: scoreOf_def)

lemma ids_addContribution:
  "map fused_id (addContribution c x acc)
     = (if candidate_id c \<in> set (map fused_id acc) then map fused_id acc
        else map fused_id acc @ [candidate_id c])"
  by (induction acc) auto

lemma distinct_addContribution:
  "distinct (map fused_id acc) \<Longrightarrow> distinct (map fused_id (addContribution c x acc))"
  by (simp add: ids_addContribution)

lemma scoreOf_fuseList:
  "scoreOf (fuseList weights k r l acc) i = scoreOf acc i + contributionFrom weights k r l i"
  by (induction l arbitrary: r acc) (auto simp: scoreOf_addContribution)

lemma distinct_fuseList:
  "distinct (map fused_id acc) \<Longrightarrow> distinct (map fused_id (fuseList weights k r l acc))"
  by (induction l arbitrary: r acc) (auto simp: distinct_addContribution)

lemma scoreOf_foldl:
  "scoreOf (foldl (\<lambda>acc l. fuseList weights k r l acc) acc rankedLists) i
     = scoreOf acc i + (\<Sum>l\<leftarrow>rankedLists. contributionFrom weights k r l i)"
  by (induction rankedLists arbitrary: acc) (auto simp: scoreOf_fuseList)

lemma distinct_foldl:
  "distinct (map fused_id acc) \<Longrightarrow>
     distinct (map fused_id (foldl (\<lambda>acc l. fuseList weights k r l acc) acc rankedLists))"
  by (induction rankedLists arbitrary: acc) (auto simp: distinct_fuseList)

lemma distinct_fuse: "distinct (map fused_id (fuse weights k rankedLists))"
  unfolding fuse_def by (rule distinct_foldl) simp

lemma scoreOf_fuse:
  "scoreOf (fuse weights k rankedLists) i = (\<Sum>l\<leftarrow>rankedLists. contributionFrom weights k 1 l i)"
  unfolding fuse_def scoreOf_foldl by (simp add: scoreOf_def)

lemma scoreOf_absent: "i \<notin> fused_id ` set acc \<Longrightarrow> scoreOf acc i = 0"
  by (induction acc) (auto simp: scoreOf_def)

lemma scoreOf_member:
  "distinct (map fused_id acc) \<Longrightarrow> f \<in> set acc \<Longrightarrow> scoreOf acc (fused_id f) = fusedScore f"
proof (induction acc)
  case Nil
  then show ?case by simp
next
  case (Cons g acc)
  show ?case
  proof (cases "f = g")
    case True
    with Cons.prems have "fused_id f \<notin> fused_id ` set acc" by auto
    then have "scoreOf acc (fused_id f) = 0" by (rule scoreOf_absent)
    with True show ?thesis by (simp add: scoreOf_def)
  next
    case False
    with Cons.prems have m: "f \<in> set acc" and d: "distinct (map fused_id acc)"
      and "fused_id g \<noteq> fused_id f" by auto
    with Cons.IH show ?thesis by (simp add: scoreOf_def)
  qed
qed

lemma contributionFrom_absent:
  "i \<notin> candidate_id ` set l \<Longrightarrow> contributionFrom weights k r l i = 0"
  by (induction l arbitrary: r) auto

lemma contributionFrom_find:
  "distinct (map candidate_id l) \<Longrightarrow>
     contributionFrom weights k r l i
       = (case find (\<lambda>(r, c). candidate_id c = i) (enumerate r l) of
            None \<Rightarrow> 0
          | Some (r, c) \<Rightarrow> weights (sourceName c) / of_nat (r + k))"
proof (induction l arbitrary: r)
  case Nil
  then show ?case by simp
next
  case (Cons c cs)
  show ?case
  proof (cases "candidate_id c = i")
    case True
    with Cons.prems have "i \<notin> candidate_id ` set cs" by auto
    then have "contributionFrom weights k (Suc r) cs i = 0"
      by (rule contributionFrom_absent)
    with True show ?thesis by simp
  next
    case False
    from Cons.prems have "distinct (map candidate_id cs)" by simp
    from Cons.IH [OF this, of "Suc r"] False show ?thesis by simp
  qed
qed

lemma contributionFrom_rankedContribution:
  "distinct (map candidate_id l) \<Longrightarrow>
     contributionFrom weights k (Suc 0) l i = rankedContribution weights k l i"
  using contributionFrom_find [of l weights k "Suc 0" i] by (simp add: rankedContribution_def)

lemma sum_list_cong_map: "(\<And>x. x \<in> set xs \<Longrightarrow> f x = g x) \<Longrightarrow> sum_list (map f xs) = sum_list (map g xs)"
  by (induction xs) auto

lemma scoreOf_fuse_rrfScore:
  assumes "\<forall>l \<in> set rankedLists. distinct (map candidate_id l)"
  shows "scoreOf (fuse weights k rankedLists) i = rrfScore weights k rankedLists i"
proof -
  have "(\<Sum>l\<leftarrow>rankedLists. contributionFrom weights k (Suc 0) l i)
          = (\<Sum>l\<leftarrow>rankedLists. rankedContribution weights k l i)"
    by (rule sum_list_cong_map) (use assms in \<open>simp add: contributionFrom_rankedContribution\<close>)
  then show ?thesis by (simp add: scoreOf_fuse rrfScore_def)
qed

lemma set_insertRanked: "set (insertRanked x ys) = insert x (set ys)"
  by (induction ys) auto

lemma set_sortRanked: "set (sortRanked xs) = set xs"
  by (induction xs) (auto simp: sortRanked_def set_insertRanked)









lemma ids_addContribution_set:
  "fused_id ` set (addContribution c x acc) = insert (candidate_id c) (fused_id ` set acc)"
  by (induction acc) auto

lemma ids_fuseList:
  "fused_id ` set (fuseList weights k r l acc) = fused_id ` set acc \<union> candidate_id ` set l"
  by (induction l arbitrary: r acc) (auto simp: ids_addContribution_set)

lemma ids_foldl:
  "fused_id ` set (foldl (\<lambda>acc l. fuseList weights k r l acc) acc rankedLists)
     = fused_id ` set acc \<union> (\<Union>l \<in> set rankedLists. candidate_id ` set l)"
  by (induction rankedLists arbitrary: acc) (auto simp: ids_fuseList)

lemma ids_fuse:
  "fused_id ` set (fuse weights k rankedLists) = (\<Union>l \<in> set rankedLists. candidate_id ` set l)"
  by (simp add: fuse_def ids_foldl)

lemma length_addContribution: "length (addContribution c x acc) \<le> Suc (length acc)"
  by (induction acc) auto

lemma length_fuseList: "length (fuseList weights k r l acc) \<le> length acc + length l"
proof (induction l arbitrary: r acc)
  case Nil
  then show ?case by simp
next
  case (Cons c cs)
  have "length (fuseList weights k (Suc r) cs (addContribution c (weights (sourceName c) / of_nat (r + k)) acc))
          \<le> length (addContribution c (weights (sourceName c) / of_nat (r + k)) acc) + length cs"
    by (rule Cons.IH)
  also have "\<dots> \<le> Suc (length acc) + length cs"
    using length_addContribution [of c _ acc] by simp
  finally show ?case by simp
qed

lemma length_foldl:
  "length (foldl (\<lambda>acc l. fuseList weights k r l acc) acc rankedLists)
     \<le> length acc + (\<Sum>l\<leftarrow>rankedLists. length l)"
proof (induction rankedLists arbitrary: acc)
  case Nil
  then show ?case by simp
next
  case (Cons l ls)
  have "length (foldl (\<lambda>acc l. fuseList weights k r l acc) (fuseList weights k r l acc) ls)
          \<le> length (fuseList weights k r l acc) + (\<Sum>l\<leftarrow>ls. length l)"
    by (rule Cons.IH)
  also have "\<dots> \<le> length acc + length l + (\<Sum>l\<leftarrow>ls. length l)"
    using length_fuseList [of weights k r l acc] by simp
  finally show ?case by simp
qed

lemma length_fuse: "length (fuse weights k rankedLists) \<le> (\<Sum>l\<leftarrow>rankedLists. length l)"
  using length_foldl [of weights k 1 "[]" rankedLists] by (simp add: fuse_def)

lemma length_insertRanked: "length (insertRanked x ys) = Suc (length ys)"
  by (induction ys) auto

lemma length_sortRanked: "length (sortRanked xs) = length xs"
  by (induction xs) (auto simp: sortRanked_def length_insertRanked)

lemma set_merge_subset: "set (merge M rankedLists weights) \<subseteq> set (fuse weights (offsetConstant M) rankedLists)"
  unfolding merge_def using set_take_subset [of "poolSize M" "sortRanked (fuse weights (offsetConstant M) rankedLists)"]
  by (simp add: set_sortRanked)

lemma set_merge_all:
  "(\<Sum>l\<leftarrow>rankedLists. length l) \<le> poolSize M \<Longrightarrow>
     set (merge M rankedLists weights) = set (fuse weights (offsetConstant M) rankedLists)"
  using length_fuse [of weights "offsetConstant M" rankedLists]
  by (simp add: merge_def set_sortRanked length_sortRanked)

lemma fusedScore_merge:
  assumes "\<forall>l \<in> set rankedLists. distinct (map candidate_id l)"
    and "f \<in> set (merge M rankedLists weights)"
  shows "fusedScore f = rrfScore weights (offsetConstant M) rankedLists (fused_id f)"
proof -
  from assms(2) have "f \<in> set (fuse weights (offsetConstant M) rankedLists)"
    using set_merge_subset by blast
  then have "scoreOf (fuse weights (offsetConstant M) rankedLists) (fused_id f) = fusedScore f"
    by (rule scoreOf_member [OF distinct_fuse])
  with scoreOf_fuse_rrfScore [OF assms(1)] show ?thesis by simp
qed

lemma find_enumerate_nth:
  "distinct (map candidate_id l) \<Longrightarrow> j < length l \<Longrightarrow>
     find (\<lambda>(r, c). candidate_id c = candidate_id (l ! j)) (enumerate r l) = Some (r + j, l ! j)"
proof (induction l arbitrary: r j)
  case Nil
  then show ?case by simp
next
  case (Cons c cs)
  show ?case
  proof (cases j)
    case 0
    then show ?thesis by simp
  next
    case (Suc j')
    with Cons.prems have "candidate_id c \<noteq> candidate_id (cs ! j')" and "j' < length cs"
      and "distinct (map candidate_id cs)" by auto
    with Cons.IH [of j' "Suc r"] Suc show ?thesis by simp
  qed
qed

lemma rankedContribution_nth:
  "distinct (map candidate_id l) \<Longrightarrow> j < length l \<Longrightarrow>
     rankedContribution weights k l (candidate_id (l ! j))
       = weights (sourceName (l ! j)) / of_nat (Suc j + k)"
  by (simp add: rankedContribution_def find_enumerate_nth)

lemma rankedContribution_absent:
  "i \<notin> candidate_id ` set l \<Longrightarrow> rankedContribution weights k l i = 0"
proof -
  assume "i \<notin> candidate_id ` set l"
  then have "find (\<lambda>(r, c). candidate_id c = i) (enumerate 1 l) = None"
    by (auto simp: find_None_iff in_set_enumerate_eq)
  then show ?thesis by (simp add: rankedContribution_def)
qed

lemma sum_list_all_zero: "(\<And>x. x \<in> set xs \<Longrightarrow> f x = (0::rat)) \<Longrightarrow> sum_list (map f xs) = 0"
  by (induction xs) auto

lemma rrfScore_single_source:
  assumes "distinct (map candidate_id l)" and "j < length l"
    and "\<forall>l' \<in> set pre \<union> set post. candidate_id (l ! j) \<notin> candidate_id ` set l'"
  shows "rrfScore weights k (pre @ l # post) (candidate_id (l ! j))
           = weights (sourceName (l ! j)) / of_nat (Suc j + k)"
proof -
  have "(\<Sum>l'\<leftarrow>pre. rankedContribution weights k l' (candidate_id (l ! j))) = 0"
    by (rule sum_list_all_zero) (use assms(3) in \<open>simp add: rankedContribution_absent\<close>)
  moreover have "(\<Sum>l'\<leftarrow>post. rankedContribution weights k l' (candidate_id (l ! j))) = 0"
    by (rule sum_list_all_zero) (use assms(3) in \<open>simp add: rankedContribution_absent\<close>)
  ultimately show ?thesis
    using rankedContribution_nth [OF assms(1,2)] by (simp add: rrfScore_def)
qed

lemma scenario_merge:
  "merge (newRRFMerger None 100) [scenarioVector, scenarioText] scenarioWeights
   = [\<lparr>fused_id = ''A'', fusedScore = 0.6 / 61 + 0.4 / 62,
        contributingSources = [''text'', ''vector''], bestSnippet = ''a''\<rparr>,
      \<lparr>fused_id = ''B'', fusedScore = 0.6 / 62 + 0.4 / 61,
        contributingSources = [''text'', ''vector''], bestSnippet = ''b''\<rparr>,
      \<lparr>fused_id = ''C'', fusedScore = 0.6 / 63,
        contributingSources = [''vector''], bestSnippet = ''c''\<rparr>,
      \<lparr>fused_id = ''D'', fusedScore = 0.4 / 63,
        contributingSources = [''text''], bestSnippet = ''d''\<rparr>]"
  by code_simp

text \<open>
  C1. For lists whose candidates have distinct ids, every result of \<open>merge\<close> has as its
  \<open>fusedScore\<close> the sum, over the source lists, of the list's contribution to its id; the
  contribution of a list to the id of its candidate at position \<open>j\<close> (rank \<open>j + 1\<close>) is
  \<open>weights (sourceName c) / (j + 1 + offsetConstant)\<close>, and a list that does not hold the id
  contributes nothing. So a candidate present in one list only is scored by that list's
  contribution alone. When the pool is large enough the results are exactly the ids of the
  input, and a merger built without a configured offset uses 60.
\<close>

theorem merge_fusedScore_is_weighted_reciprocal_rank_sum:
  fixes rankedLists :: "Candidate list list"
  assumes "\<forall>l \<in> set rankedLists. distinct (map candidate_id l)"
  shows "(\<forall>f \<in> set (merge M rankedLists weights).
            fusedScore f = (\<Sum>l\<leftarrow>rankedLists. rankedContribution weights (offsetConstant M) l (fused_id f)))
         \<and> (\<forall>l \<in> set rankedLists. \<forall>j < length l.
               rankedContribution weights (offsetConstant M) l (candidate_id (l ! j))
                 = weights (sourceName (l ! j)) / of_nat (Suc j + offsetConstant M))
         \<and> (\<forall>l \<in> set rankedLists. \<forall>i. i \<notin> candidate_id ` set l \<longrightarrow>
               rankedContribution weights (offsetConstant M) l i = 0)
         \<and> (\<forall>f \<in> set (merge M rankedLists weights). \<forall>pre (l :: Candidate list) post j.
               rankedLists = pre @ l # post \<and> j < length l \<and> candidate_id (l ! j) = fused_id f
               \<and> (\<forall>l' \<in> set pre \<union> set post. fused_id f \<notin> candidate_id ` set l')
               \<longrightarrow> fusedScore f = weights (sourceName (l ! j)) / of_nat (Suc j + offsetConstant M))
         \<and> ((\<Sum>l\<leftarrow>rankedLists. length l) \<le> poolSize M \<longrightarrow>
               fused_id ` set (merge M rankedLists weights)
                 = (\<Union>l \<in> set rankedLists. candidate_id ` set l))
         \<and> offsetConstant (newRRFMerger None pool) = 60"
proof (intro conjI ballI allI impI)
  fix f assume "f \<in> set (merge M rankedLists weights)"
  with assms show "fusedScore f = (\<Sum>l\<leftarrow>rankedLists. rankedContribution weights (offsetConstant M) l (fused_id f))"
    using fusedScore_merge [of rankedLists f M weights] by (simp add: rrfScore_def)
next
  fix l :: "Candidate list" and j assume "l \<in> set rankedLists" "j < length l"
  with assms show "rankedContribution weights (offsetConstant M) l (candidate_id (l ! j))
                 = weights (sourceName (l ! j)) / of_nat (Suc j + offsetConstant M)"
    by (simp add: rankedContribution_nth)
next
  fix l :: "Candidate list" and i assume "i \<notin> candidate_id ` set l"
  then show "rankedContribution weights (offsetConstant M) l i = 0"
    by (rule rankedContribution_absent)
next
  fix f pre and l :: "Candidate list" and post j
  assume f: "f \<in> set (merge M rankedLists weights)"
    and h: "rankedLists = pre @ l # post \<and> j < length l \<and> candidate_id (l ! j) = fused_id f
               \<and> (\<forall>l' \<in> set pre \<union> set post. fused_id f \<notin> candidate_id ` set l')"
  from h assms have d: "distinct (map candidate_id l)" by simp
  from h have j: "j < length l" by simp
  from h have o: "\<forall>l' \<in> set pre \<union> set post. candidate_id (l ! j) \<notin> candidate_id ` set l'"
    by simp
  have "fusedScore f = rrfScore weights (offsetConstant M) rankedLists (fused_id f)"
    using assms f by (rule fusedScore_merge)
  also have "\<dots> = rrfScore weights (offsetConstant M) (pre @ l # post) (candidate_id (l ! j))"
    using h by simp
  also have "\<dots> = weights (sourceName (l ! j)) / of_nat (Suc j + offsetConstant M)"
    using d j o by (rule rrfScore_single_source)
  finally show "fusedScore f = weights (sourceName (l ! j)) / of_nat (Suc j + offsetConstant M)" .
next
  assume "(\<Sum>l\<leftarrow>rankedLists. length l) \<le> poolSize M"
  then show "fused_id ` set (merge M rankedLists weights) = (\<Union>l \<in> set rankedLists. candidate_id ` set l)"
    by (simp add: set_merge_all ids_fuse)
next
  show "offsetConstant (newRRFMerger None pool) = 60"
    by (simp add: newRRFMerger_def)
qed

theorem merge_fusedScore_witness:
  "(\<exists>f \<in> set (merge (newRRFMerger None 100) [scenarioVector, scenarioText] scenarioWeights).
      fused_id f = ''A''
      \<and> fusedScore f
          = rankedContribution scenarioWeights 60 scenarioVector ''A''
            + rankedContribution scenarioWeights 60 scenarioText ''A''
      \<and> fusedScore f = 0.6 / (1 + 60) + 0.4 / (2 + 60))
   \<and> (\<exists>f \<in> set (merge (newRRFMerger None 100) [scenarioVector, scenarioText] scenarioWeights).
      fused_id f = ''D'' \<and> fusedScore f = 0.4 / (3 + 60))"
proof -
  let ?M = "newRRFMerger None 100" and ?L = "[scenarioVector, scenarioText]"
  let ?a = "\<lparr>fused_id = ''A'', fusedScore = 0.6 / 61 + 0.4 / 62,
        contributingSources = [''text'', ''vector''], bestSnippet = ''a''\<rparr>"
  let ?d = "\<lparr>fused_id = ''D'', fusedScore = 0.4 / 63,
        contributingSources = [''text''], bestSnippet = ''d''\<rparr>"
  have d: "\<forall>l \<in> set ?L. distinct (map candidate_id l)"
    by (simp add: scenarioVector_def scenarioText_def)
  note t = merge_fusedScore_is_weighted_reciprocal_rank_sum
    [OF d, where M = ?M and weights = scenarioWeights and pool = 100]
  have s: "\<forall>f \<in> set (merge ?M ?L scenarioWeights).
          fusedScore f = (\<Sum>l\<leftarrow>?L. rankedContribution scenarioWeights (offsetConstant ?M) l (fused_id f))"
    by (rule t [THEN conjunct1])
  have ma: "?a \<in> set (merge ?M ?L scenarioWeights)" and md: "?d \<in> set (merge ?M ?L scenarioWeights)"
    unfolding scenario_merge by simp_all
  have k: "offsetConstant ?M = 60" by (simp add: newRRFMerger_def)
  from s ma have "fusedScore ?a
      = (\<Sum>l\<leftarrow>?L. rankedContribution scenarioWeights (offsetConstant ?M) l (fused_id ?a))"
    by (rule bspec)
  then have a1: "fusedScore ?a = rankedContribution scenarioWeights 60 scenarioVector ''A''
            + rankedContribution scenarioWeights 60 scenarioText ''A''"
    unfolding k by simp
  have a2: "fusedScore ?a = 0.6 / (1 + 60) + 0.4 / (2 + 60)" by simp
  have d2: "fusedScore ?d = 0.4 / (3 + 60)" by simp
  from ma a1 a2 have "\<exists>f \<in> set (merge ?M ?L scenarioWeights). fused_id f = ''A''
      \<and> fusedScore f = rankedContribution scenarioWeights 60 scenarioVector ''A''
            + rankedContribution scenarioWeights 60 scenarioText ''A''
      \<and> fusedScore f = 0.6 / (1 + 60) + 0.4 / (2 + 60)"
    by (intro bexI [of _ ?a] conjI) simp_all
  moreover from md d2 have "\<exists>f \<in> set (merge ?M ?L scenarioWeights).
      fused_id f = ''D'' \<and> fusedScore f = 0.4 / (3 + 60)"
    by (intro bexI [of _ ?d] conjI) simp_all
  ultimately show ?thesis by (rule conjI)
qed





section \<open>Properties of the circuit breaker\<close>









end
